theory Spec2Isabelle
  imports Main "HOL-Library.Word"
begin

section \<open>Host data: positions, ranges, documents\<close>

text \<open>
  The extension runs inside an editor host. The host's classes \<open>Position\<close>, \<open>Range\<close>,
  \<open>TextLine\<close> and \<open>TextDocument\<close> are not code of the repository; they are modelled after
  the host's documented behaviour, as far as the extension reads them. Strings are lists of
  \<open>char\<close>, one \<open>char\<close> per code unit; code units above 255 are outside the model.
\<close>

datatype Position = Position (line: nat) (character: nat)

datatype Range = Range (start: Position) (end': Position)

datatype TextLine = TextLine (lineNo: nat) (lineText: string)

record Uri =
  scheme :: string
  path :: string
  fsPath :: string

record TextDocument =
  uri :: Uri
  lines :: "string list"
  eol :: string

datatype error =
    FormatError string
  | ErrnoException string
  | HostError string

text \<open>\<open>Position.isBefore\<close>: lexicographic on line, then character.\<close>

definition isBefore :: "Position \<Rightarrow> Position \<Rightarrow> bool" where
  "isBefore p q = (line p < line q \<or> (line p = line q \<and> character p < character q))"

text \<open>
  \<open>new vscode.Range(a, b)\<close>: the host's constructor keeps the order when \<open>a\<close> is before
  \<open>b\<close> and swaps the two otherwise.
\<close>

definition newRange :: "Position \<Rightarrow> Position \<Rightarrow> Range" where
  "newRange a b = (if isBefore a b then Range a b else Range b a)"

definition isEmpty :: "Range \<Rightarrow> bool" where
  "isEmpty r = (start r = end' r)"

definition lineCount :: "TextDocument \<Rightarrow> nat" where
  "lineCount doc = length (lines doc)"

text \<open>\<open>document.lineAt(n)\<close> throws when \<open>n\<close> is not the number of a line.\<close>

definition lineAt :: "TextDocument \<Rightarrow> int \<Rightarrow> error + TextLine" where
  "lineAt doc n =
     (if 0 \<le> n \<and> n < int (lineCount doc)
      then Inr (TextLine (nat n) (lines doc ! nat n))
      else Inl (HostError ''Illegal value for `line`''))"

text \<open>
  \<open>document.getText(range)\<close> adjusts the range to the document first (a line past the end
  becomes the end of the last line, a column past the end of its line becomes the line's
  end) and never throws.
\<close>

definition validatePosition :: "TextDocument \<Rightarrow> Position \<Rightarrow> Position" where
  "validatePosition doc p =
     (if lines doc = [] then Position 0 0
      else if length (lines doc) \<le> line p
        then Position (length (lines doc) - 1) (length (last (lines doc)))
      else Position (line p) (min (character p) (length (lines doc ! line p))))"

definition getText :: "TextDocument \<Rightarrow> Range \<Rightarrow> string" where
  "getText doc r =
     (let s = validatePosition doc (start r); e = validatePosition doc (end' r) in
      if s = e then []
      else if line s = line e
        then take (character e - character s) (drop (character s) (lines doc ! line s))
      else drop (character s) (lines doc ! line s)
           @ concat (map (\<lambda>l. eol doc @ l) (take (line e - line s - 1) (drop (line s + 1) (lines doc))))
           @ eol doc @ take (character e) (lines doc ! line e))"

section \<open>Range resolution (the extension's entry points)\<close>

text \<open>
  \<open>String.prototype.lastIndexOf\<close> for a single character: the greatest index holding it,
  or \<open>-1\<close>.
\<close>

primrec lastIndexOf_from :: "char \<Rightarrow> string \<Rightarrow> int \<Rightarrow> int \<Rightarrow> int" where
  "lastIndexOf_from c [] i found = found"
| "lastIndexOf_from c (x # xs) i found =
     lastIndexOf_from c xs (i + 1) (if x = c then i else found)"

definition lastIndexOf :: "string \<Rightarrow> char \<Rightarrow> int" where
  "lastIndexOf s c = lastIndexOf_from c s 0 (- 1)"

text \<open>
  The class \<open>\s\<close> of the regular expression \<open>/^\s*$/\<close>, on code units below 256: tab, line
  feed, vertical tab, form feed, carriage return, space and no-break space. Without the
  multiline flag the expression matches a string exactly when all of it is in that class.
\<close>

definition isWhitespace :: "char \<Rightarrow> bool" where
  "isWhitespace c = (of_char c \<in> {9, 10, 11, 12, 13, 32, 160 :: nat})"

definition matchesWhitespaceOnly :: "string \<Rightarrow> bool" where
  "matchesWhitespaceOnly s = list_all isWhitespace s"

text \<open>
  \<open>get_range(document, range, selection)\<close>: a non-empty selection wins, then the given
  range, then the whole document.
\<close>

definition get_range :: "TextDocument \<Rightarrow> Range option \<Rightarrow> Range option \<Rightarrow> error + Range" where
  "get_range doc rng selection =
     (let range1 = (case selection of
                      Some sel \<Rightarrow> if \<not> isEmpty sel then Some (newRange (start sel) (end' sel)) else rng
                    | None \<Rightarrow> rng)
      in case range1 of
           Some r \<Rightarrow> Inr r
         | None \<Rightarrow>
             (case lineAt doc (int (lineCount doc) - 1) of
                Inl e \<Rightarrow> Inl e
              | Inr l \<Rightarrow> Inr (newRange (Position 0 0)
                                (Position (lineCount doc - 1) (length (lineText l))))))"

text \<open>
  The range that \<open>provideDocumentRangeFormattingEdits\<close> passes to the formatter: the
  candidate's start goes to column 0 when the text between the line's start and the candidate's
  start matches \<open>/^\s*$/\<close>.
\<close>

definition rangeFormattingRange :: "TextDocument \<Rightarrow> Range \<Rightarrow> error + Range" where
  "rangeFormattingRange doc rng =
     (let indentRange = newRange (Position (line (start rng)) 0) (start rng);
          range1 = (if matchesWhitespaceOnly (getText doc indentRange)
                    then newRange (Position (line (start rng)) 0) (end' rng)
                    else rng)
      in get_range doc (Some range1) None)"

text \<open>
  The \<open>while\<close> loop of \<open>provideOnTypeFormattingEdits\<close>: from \<open>lineNumber\<close> down to 0, stop
  at the first line holding a semicolon. The loop is outside the \<open>try\<close> block, so a throwing
  \<open>lineAt\<close> ends the provider with that error.
\<close>

function scanBack :: "TextDocument \<Rightarrow> int \<Rightarrow> error + Position" where
  "scanBack doc lineNumber =
     (if 0 \<le> lineNumber then
        (case lineAt doc lineNumber of
           Inl e \<Rightarrow> Inl e
         | Inr l \<Rightarrow>
             (let indexOfSemicolon = lastIndexOf (lineText l) (CHR '';'') in
              if 0 \<le> indexOfSemicolon then Inr (Position (nat (lineNumber + 1)) 0)
              else scanBack doc (lineNumber - 1)))
      else Inr (Position 0 0))"
  by pat_completeness auto
termination
  by (relation "measure (\<lambda>(doc, n). nat (n + 1))") auto

definition onTypeFormattingRange :: "TextDocument \<Rightarrow> Position \<Rightarrow> error + Range" where
  "onTypeFormattingRange doc position =
     (case scanBack doc (int (line position) - 1) of
        Inl e \<Rightarrow> Inl e
      | Inr s \<Rightarrow> Inr (newRange s position))"

section \<open>The formatter's environment\<close>

text \<open>
  Everything the formatter reads from outside on each call is gathered in a \<open>Host\<close>: the
  three settings of \<open>perltidy-more\<close> (each with the default the source passes to
  \<open>config.get\<close> already applied), the workspace folder of a document, the file system's
  \<open>existsSync\<close>, and \<open>isAbsolute\<close> and \<open>join\<close> of the path library. The source reads them
  anew on every call, so every function below takes the host of that moment.
  \<open>writeThrows\<close> says whether writing to a child's standard input throws synchronously,
  which is what the \<open>catch\<close> block of \<open>format\<close> is for.
\<close>

record WorkspaceFolder =
  folderUri :: Uri
  folderName :: string
  folderIndex :: nat

record Configuration =
  executableSetting :: string
  profileSetting :: string
  autoDisableSetting :: bool

record Host =
  config :: Configuration
  getWorkspaceFolder :: "Uri \<Rightarrow> WorkspaceFolder option"
  existsSync :: "string \<Rightarrow> bool"
  isAbsolute :: "string \<Rightarrow> bool"
  join :: "string \<Rightarrow> string \<Rightarrow> string"
  writeThrows :: "nat \<Rightarrow> error option"

text \<open>
  A child process is known by its number: the \<open>n\<close>-th call of \<open>spawn\<close> (counting from 0)
  makes child \<open>n\<close>. \<open>spawn\<close> always returns a handle; a process that cannot start reports
  it later through its \<open>error\<close> event. The state holds the formatter's
  \<open>workerCacheMap\<close> and, as a record of the effects on the outside, every call of \<open>spawn\<close>
  and every operation on a child's standard input, in order.
\<close>

record Worker =
  worker :: nat
  executable :: string

record SpawnCall =
  spawnFile :: string
  spawnArgs :: "string list"
  spawnCwd :: string

datatype StdinOp = Write string | End

record Formatter =
  workerCacheMap :: "WorkspaceFolder \<rightharpoonup> Worker"
  processes :: "SpawnCall list"
  stdinLog :: "(nat \<times> StdinOp) list"

datatype 'a outcome = Resolved 'a | Rejected error

text \<open>
  One call of \<open>format\<close> that got as far as registering its handlers: the variables the
  handlers close over, and the promise, which only its first \<open>resolve\<close> or \<open>reject\<close>
  settles. A resolved value \<open>None\<close> is \<open>undefined\<close>.
\<close>

record Call =
  currentWorkspace :: "WorkspaceFolder option"
  callWorker :: Worker
  result_text :: string
  error_text :: string
  promise :: "string option outcome option"

datatype started = Settled "string option outcome" | Running Call

text \<open>
  What a stream hands to a \<open>data\<close> handler is a \<open>Buffer\<close> of bytes: no encoding is set
  on the streams. \<open>result_text += chunk\<close> makes a string of each chunk on its own
  (\<open>Buffer.toString\<close>, UTF-8 decoding); that conversion belongs to the platform and is a
  parameter \<open>toString\<close> of the handlers.
\<close>

type_synonym Buffer = "8 word list"

datatype event =
    StdoutData Buffer
  | StderrData Buffer
  | ProcError error
  | ProcClose "int option"

section \<open>The formatter\<close>

text \<open>\<open>createWorker\<close>, the same in both revisions of the file.\<close>

definition createWorker :: "Host \<Rightarrow> Formatter \<Rightarrow> WorkspaceFolder \<Rightarrow> Formatter \<times> Worker" where
  "createWorker host st workspace =
     (let executable0 = executableSetting (config host);
          profile = profileSetting (config host);
          args = [''--standard-output'', ''-no-add-terminal-newline'']
                 @ (if profile \<noteq> [] then [''--profile='' @ profile] else []);
          cwd0 = fsPath (folderUri workspace);
          cwd1 = (if scheme (folderUri workspace) \<noteq> ''file'' then ''.'' else cwd0);
          resolved = join host (path (folderUri workspace)) executable0;
          useResolved = (\<not> isAbsolute host executable0 \<and> existsSync host resolved);
          executable1 = (if useResolved then resolved else executable0);
          cwd2 = (if useResolved then path (folderUri workspace) else cwd1)
      in (st\<lparr>processes := processes st
                 @ [\<lparr>spawnFile = executable1, spawnArgs = args, spawnCwd = cwd2\<rparr>]\<rparr>,
          \<lparr>worker = length (processes st), executable = executable1\<rparr>))"

definition isFormatEnabled :: "Host \<Rightarrow> WorkspaceFolder \<Rightarrow> bool" where
  "isFormatEnabled host workspace =
     (if autoDisableSetting (config host)
      then (if \<not> existsSync host (join host (path (folderUri workspace)) ''.perltidyrc'')
            then False else True)
      else True)"

text \<open>\<open>Formatter.standBy\<close>: both \<open>throw\<close>s carry the same message.\<close>

definition standBy :: "Host \<Rightarrow> Formatter \<Rightarrow> WorkspaceFolder option \<Rightarrow> Formatter \<times> (error + Worker)" where
  "standBy host st workspace =
     (case workspace of
        None \<Rightarrow>
          (st, Inl (FormatError ''Format failed. File must be belong to one workspace at least.''))
      | Some ws \<Rightarrow>
          if \<not> isFormatEnabled host ws
          then (st, Inl (FormatError ''Format failed. File must be belong to one workspace at least.''))
          else (case workerCacheMap st ws of
                  Some result \<Rightarrow> (st, Inr result)
                | None \<Rightarrow>
                    (let (st1, result) = createWorker host st ws
                     in (st1\<lparr>workerCacheMap := (workerCacheMap st1)(ws \<mapsto> result)\<rparr>,
                         Inr result))))"

text \<open>\<open>this.workerCacheMap.delete(currentWorkspace!)\<close>\<close>

definition cacheDelete :: "Formatter \<Rightarrow> WorkspaceFolder option \<Rightarrow> Formatter" where
  "cacheDelete st workspace =
     (case workspace of
        None \<Rightarrow> st
      | Some ws \<Rightarrow> st\<lparr>workerCacheMap := (workerCacheMap st)(ws := None)\<rparr>)"

text \<open>
  \<open>this.standBy(currentWorkspace!)\<close> as the handlers call it: nothing awaits the promise,
  so a \<open>throw\<close> inside is lost and only the state matters.
\<close>

definition evictAndRestart :: "Host \<Rightarrow> Formatter \<Rightarrow> WorkspaceFolder option \<Rightarrow> Formatter" where
  "evictAndRestart host st workspace = fst (standBy host (cacheDelete st workspace) workspace)"

text \<open>Decimal digits of a number, for the \<open>${code}\<close> of the messages; \<open>null\<close> when the
  process was ended by a signal.\<close>

fun showNat :: "nat \<Rightarrow> string" where
  "showNat n =
     (if n < 10 then [''0123456789'' ! n]
      else showNat (n div 10) @ [''0123456789'' ! (n mod 10)])"

definition showCode :: "int option \<Rightarrow> string" where
  "showCode code =
     (case code of
        None \<Rightarrow> ''null''
      | Some i \<Rightarrow> if i < 0 then ''-'' @ showNat (nat (- i)) else showNat (nat i))"

text \<open>
  Modelled from the spec: \<open>isErrnoException\<close> is defined in the module \<open>./error\<close>, of
  which only the import is at hand. The spec's process-level error event (the executable is
  missing) is an error of the operating system, which carries its \<open>code\<close>.
\<close>

definition isErrnoException :: "error \<Rightarrow> bool" where
  "isErrnoException e = (case e of ErrnoException c \<Rightarrow> True | _ \<Rightarrow> False)"

definition errnoCode :: "error \<Rightarrow> string" where
  "errnoCode e = (case e of ErrnoException c \<Rightarrow> c | _ \<Rightarrow> [])"

text \<open>What the \<open>error\<close> handler rejects with (the same text in both revisions).\<close>

definition errorRejection :: "string \<Rightarrow> error \<Rightarrow> error" where
  "errorRejection exe e =
     (if isErrnoException e \<and> errnoCode e = ''ENOENT'' then
        (if exe = ''perltidy''
         then FormatError (''Format failed. Executable file (`'' @ exe
                @ ''`) is not found. You probably forgot to install perltidy.'')
         else FormatError (''Format failed. Executable file (`'' @ exe @ ''`) is not found.''))
      else e)"

text \<open>What the \<open>close\<close> handler settles the promise with (the same text in both revisions).\<close>

definition closeOutcome :: "int option \<Rightarrow> string \<Rightarrow> string \<Rightarrow> string option outcome" where
  "closeOutcome code err out =
     (if code \<noteq> Some 0 then
        (if err = []
         then Rejected (FormatError (''Format failed. Perltidy exited with exit code ''
                @ showCode code @ ''.''))
         else Rejected (FormatError (''Format failed. Perltidy exited with exit code ''
                @ showCode code @ ''. Error messages: '' @ err)))
      else Resolved (Some out))"

definition settle :: "string option outcome \<Rightarrow> Call \<Rightarrow> Call" where
  "settle out c = (case promise c of None \<Rightarrow> c\<lparr>promise := Some out\<rparr> | Some _ \<Rightarrow> c)"

text \<open>
  \<open>Formatter.format\<close> of the later revision (the one with \<open>workerCacheMap\<close>), up to the
  point where its handlers are registered, when nothing happens in between.
\<close>

definition format :: "Host \<Rightarrow> Formatter \<Rightarrow> TextDocument \<Rightarrow> Range \<Rightarrow> Formatter \<times> started" where
  "format host st document rng =
     (let text = getText document rng in
      if text = [] then (st, Settled (Resolved (Some [])))
      else
        (let workspace = getWorkspaceFolder host (uri document) in
         case standBy host st workspace of
           (st1, Inl e) \<Rightarrow> (st1, Settled (Rejected e))
         | (st1, Inr w) \<Rightarrow>
             (case writeThrows host (worker w) of
                Some e \<Rightarrow> (evictAndRestart host st1 workspace, Settled (Rejected e))
              | None \<Rightarrow>
                  (st1\<lparr>stdinLog := stdinLog st1 @ [(worker w, Write text), (worker w, End)]\<rparr>,
                   Running \<lparr>currentWorkspace = workspace, callWorker = w,
                            result_text = [], error_text = [], promise = None\<rparr>))))"

text \<open>
  \<open>format\<close> runs in two turns. The first goes up to \<open>await this.standBy(...)\<close>, with
  the outcome of \<open>standBy\<close> in hand; the second starts where the \<open>await\<close> returns, and
  only there the handlers are registered. Between the two turns the process, already spawned,
  may signal an event; it then finds no handler of this call.
\<close>

datatype call =
    Awaiting string "WorkspaceFolder option" "error + Worker"
  | Past started

definition formatBegin :: "Host \<Rightarrow> Formatter \<Rightarrow> TextDocument \<Rightarrow> Range \<Rightarrow> Formatter \<times> call" where
  "formatBegin host st document rng =
     (let text = getText document rng in
      if text = [] then (st, Past (Settled (Resolved (Some []))))
      else
        (let workspace = getWorkspaceFolder host (uri document) in
         case standBy host st workspace of
           (st1, r) \<Rightarrow> (st1, Awaiting text workspace r)))"

definition formatResume ::
  "Host \<Rightarrow> Formatter \<Rightarrow> string \<Rightarrow> WorkspaceFolder option \<Rightarrow> error + Worker
     \<Rightarrow> Formatter \<times> started" where
  "formatResume host st text workspace r =
     (case r of
        Inl e \<Rightarrow> (st, Settled (Rejected e))
      | Inr w \<Rightarrow>
          (case writeThrows host (worker w) of
             Some e \<Rightarrow> (evictAndRestart host st workspace, Settled (Rejected e))
           | None \<Rightarrow>
               (st\<lparr>stdinLog := stdinLog st @ [(worker w, Write text), (worker w, End)]\<rparr>,
                Running \<lparr>currentWorkspace = workspace, callWorker = w,
                         result_text = [], error_text = [], promise = None\<rparr>)))"

text \<open>The four handlers of the later revision, one event at a time.\<close>

definition handleEvent ::
  "(Buffer \<Rightarrow> string) \<Rightarrow> Host \<Rightarrow> event \<Rightarrow> Formatter \<times> Call \<Rightarrow> Formatter \<times> Call" where
  "handleEvent toString host ev sc =
     (case sc of (st, c) \<Rightarrow>
        (case ev of
           StdoutData chunk \<Rightarrow> (st, c\<lparr>result_text := result_text c @ toString chunk\<rparr>)
         | StderrData chunk \<Rightarrow> (st, c\<lparr>error_text := error_text c @ toString chunk\<rparr>)
         | ProcError e \<Rightarrow>
             (evictAndRestart host st (currentWorkspace c),
              settle (Rejected (errorRejection (executable (callWorker c)) e)) c)
         | ProcClose code \<Rightarrow>
             (evictAndRestart host st (currentWorkspace c),
              settle (closeOutcome code (error_text c) (result_text c)) c)))"

text \<open>
  The events that reach the handlers of one call, in order, each with the host of its
  moment.
\<close>

fun run ::
  "(Buffer \<Rightarrow> string) \<Rightarrow> (Host \<times> event) list \<Rightarrow> Formatter \<times> Call \<Rightarrow> Formatter \<times> Call" where
  "run toString [] sc = sc"
| "run toString ((host, ev) # evs) sc = run toString evs (handleEvent toString host ev sc)"

text \<open>
  \<open>Formatter.format\<close> of the earlier revision: no cache, the auto-disable check inside
  \<open>format\<close>, one process per call. It leaves \<open>workerCacheMap\<close> alone.
\<close>

definition format_uncached :: "Host \<Rightarrow> Formatter \<Rightarrow> TextDocument \<Rightarrow> Range \<Rightarrow> Formatter \<times> started" where
  "format_uncached host st document rng =
     (let text = getText document rng in
      if text = [] then (st, Settled (Resolved (Some [])))
      else
        (case getWorkspaceFolder host (uri document) of
           None \<Rightarrow>
             (st, Settled (Rejected
                (FormatError ''Format failed. File must be belong to one workspace at least.'')))
         | Some ws \<Rightarrow>
             if autoDisableSetting (config host)
                \<and> \<not> existsSync host (join host (path (folderUri ws)) ''.perltidyrc'')
             then (st, Settled (Resolved None))
             else
               (let (st1, w) = createWorker host st ws in
                case writeThrows host (worker w) of
                  Some e \<Rightarrow> (st1, Settled (Rejected e))
                | None \<Rightarrow>
                    (st1\<lparr>stdinLog := stdinLog st1 @ [(worker w, Write text), (worker w, End)]\<rparr>,
                     Running \<lparr>currentWorkspace = Some ws, callWorker = w,
                              result_text = [], error_text = [], promise = None\<rparr>))))"

definition handleEvent_uncached :: "(Buffer \<Rightarrow> string) \<Rightarrow> event \<Rightarrow> Call \<Rightarrow> Call" where
  "handleEvent_uncached toString ev c =
     (case ev of
        StdoutData chunk \<Rightarrow> c\<lparr>result_text := result_text c @ toString chunk\<rparr>
      | StderrData chunk \<Rightarrow> c\<lparr>error_text := error_text c @ toString chunk\<rparr>
      | ProcError e \<Rightarrow> settle (Rejected (errorRejection (executable (callWorker c)) e)) c
      | ProcClose code \<Rightarrow> settle (closeOutcome code (error_text c) (result_text c)) c)"

text \<open>
  The strings that the \<open>data\<close> handlers add during a run, in order: every chunk
  converted on its own.
\<close>

fun stdoutOf :: "(Buffer \<Rightarrow> string) \<Rightarrow> (Host \<times> event) list \<Rightarrow> string" where
  "stdoutOf toString [] = []"
| "stdoutOf toString ((h, StdoutData chunk) # evs) = toString chunk @ stdoutOf toString evs"
| "stdoutOf toString (_ # evs) = stdoutOf toString evs"

fun stderrOf :: "(Buffer \<Rightarrow> string) \<Rightarrow> (Host \<times> event) list \<Rightarrow> string" where
  "stderrOf toString [] = []"
| "stderrOf toString ((h, StderrData chunk) # evs) = toString chunk @ stderrOf toString evs"
| "stderrOf toString (_ # evs) = stderrOf toString evs"

fun isData :: "event \<Rightarrow> bool" where
  "isData (StdoutData chunk) = True"
| "isData (StderrData chunk) = True"
| "isData _ = False"

section \<open>The formatter among its processes\<close>

text \<open>
  The extension and its child processes take turns. A turn is the first part of a call of
  \<open>format\<close>, the second part of an earlier call, or an event that a process signals. An
  event goes to the handlers registered on that process at that moment, in the order of
  their registration: those of the calls of \<open>format\<close> that got the process from \<open>standBy\<close>
  and have passed their \<open>await\<close>. \<open>createWorker\<close> and \<open>standBy\<close> register none, so the
  event of a process that no such call holds leaves the formatter as it is (an \<open>error\<close>
  without a handler is reported by the platform as unhandled). A stream keeps its chunks until
  a \<open>data\<close> handler is registered, so the platform signals \<open>data\<close> only to a process
  with handlers. \<open>exited\<close> lists the processes that have signalled \<open>error\<close> or
  \<open>close\<close>.
\<close>

record System =
  formatter :: Formatter
  calls :: "call list"
  exited :: "nat list"

datatype action =
    Begin Host TextDocument Range
  | Resume Host nat
  | Emit Host nat event

fun deliver ::
  "(Buffer \<Rightarrow> string) \<Rightarrow> Host \<Rightarrow> nat \<Rightarrow> event \<Rightarrow> Formatter \<Rightarrow> call list
     \<Rightarrow> Formatter \<times> call list" where
  "deliver toString host pid ev st [] = (st, [])"
| "deliver toString host pid ev st (Past (Running c) # cs) =
     (if worker (callWorker c) = pid
      then (case handleEvent toString host ev (st, c) of
              (st1, c1) \<Rightarrow>
                (case deliver toString host pid ev st1 cs of
                   (st2, cs2) \<Rightarrow> (st2, Past (Running c1) # cs2)))
      else (case deliver toString host pid ev st cs of
              (st2, cs2) \<Rightarrow> (st2, Past (Running c) # cs2)))"
| "deliver toString host pid ev st (x # cs) =
     (case deliver toString host pid ev st cs of (st2, cs2) \<Rightarrow> (st2, x # cs2))"

definition step :: "(Buffer \<Rightarrow> string) \<Rightarrow> action \<Rightarrow> System \<Rightarrow> System" where
  "step toString a sys =
     (case a of
        Begin host document rng \<Rightarrow>
          (case formatBegin host (formatter sys) document rng of
             (st1, c) \<Rightarrow> sys\<lparr>formatter := st1, calls := calls sys @ [c]\<rparr>)
      | Resume host k \<Rightarrow>
          (if k < length (calls sys) then
             (case calls sys ! k of
                Awaiting text workspace r \<Rightarrow>
                  (case formatResume host (formatter sys) text workspace r of
                     (st1, s) \<Rightarrow> sys\<lparr>formatter := st1, calls := (calls sys)[k := Past s]\<rparr>)
              | Past s \<Rightarrow> sys)
           else sys)
      | Emit host pid ev \<Rightarrow>
          (case deliver toString host pid ev (formatter sys) (calls sys) of
             (st1, cs) \<Rightarrow>
               sys\<lparr>formatter := st1, calls := cs,
                    exited := (if isData ev then exited sys else exited sys @ [pid])\<rparr>))"

fun runSystem :: "(Buffer \<Rightarrow> string) \<Rightarrow> action list \<Rightarrow> System \<Rightarrow> System" where
  "runSystem toString [] sys = sys"
| "runSystem toString (a # as) sys = runSystem toString as (step toString a sys)"

text \<open>What the promise of a call holds (\<open>None\<close> while it is pending), and its process.\<close>

fun promiseOf :: "call \<Rightarrow> string option outcome option" where
  "promiseOf (Awaiting text workspace r) = None"
| "promiseOf (Past (Settled out)) = Some out"
| "promiseOf (Past (Running c)) = promise c"

fun workerOf :: "call \<Rightarrow> nat option" where
  "workerOf (Awaiting text workspace (Inr w)) = Some (worker w)"
| "workerOf (Past (Running c)) = Some (worker (callWorker c))"
| "workerOf _ = None"

text \<open>Text without printable content: nothing but whitespace.\<close>

definition noPrintableContent :: "string \<Rightarrow> bool" where
  "noPrintableContent s = list_all isWhitespace s"

text \<open>
  A cache is sound when every worker in it is one that \<open>spawn\<close> has made.
\<close>

definition cacheSound :: "Formatter \<Rightarrow> bool" where
  "cacheSound st = (\<forall>ws w. workerCacheMap st ws = Some w \<longrightarrow> worker w < length (processes st))"

section \<open>Example inputs\<close>

definition perlUri :: Uri where
  "perlUri = \<lparr>scheme = ''file'', path = ''/work/app/lib/Foo.pm'', fsPath = ''/work/app/lib/Foo.pm''\<rparr>"

definition onTypeDoc :: TextDocument where
  "onTypeDoc = \<lparr>uri = perlUri,
     lines = [''use strict;'', ''my $x = 1;'', ''my @a = (1, 2);'', ''foo();'', ''if ($x) {'', ''  bar()''],
     eol = [CHR 0x0A]\<rparr>"

definition blockDoc :: TextDocument where
  "blockDoc = \<lparr>uri = perlUri,
     lines = [''sub f {'', ''  g(1, [2])'', ''}'', ''h()''],
     eol = [CHR 0x0A]\<rparr>"

definition indentDoc :: TextDocument where
  "indentDoc = \<lparr>uri = perlUri,
     lines = [''  do {'', ''return do {'', ''}''],
     eol = [CHR 0x0A]\<rparr>"

definition appFolder :: WorkspaceFolder where
  "appFolder = \<lparr>folderUri = \<lparr>scheme = ''file'', path = ''/work/app'', fsPath = ''/work/app''\<rparr>,
     folderName = ''app'', folderIndex = 0\<rparr>"

definition posixJoin :: "string \<Rightarrow> string \<Rightarrow> string" where
  "posixJoin a b = a @ ''/'' @ b"

definition posixIsAbsolute :: "string \<Rightarrow> bool" where
  "posixIsAbsolute p = (case p of [] \<Rightarrow> False | c # _ \<Rightarrow> c = CHR ''/'')"

text \<open>A host with the settings' defaults in a workspace without local files.\<close>

definition plainHost :: Host where
  "plainHost = \<lparr>config = \<lparr>executableSetting = ''perltidy'', profileSetting = [],
                          autoDisableSetting = False\<rparr>,
     getWorkspaceFolder = (\<lambda>u. Some appFolder),
     existsSync = (\<lambda>p. False),
     isAbsolute = posixIsAbsolute,
     join = posixJoin,
     writeThrows = (\<lambda>n. None)\<rparr>"

definition autoDisableHost :: Host where
  "autoDisableHost = plainHost\<lparr>config := \<lparr>executableSetting = ''perltidy'', profileSetting = [],
                                          autoDisableSetting = True\<rparr>\<rparr>"

definition profileHost :: Host where
  "profileHost = plainHost\<lparr>config := \<lparr>executableSetting = ''perltidy'',
                                      profileSetting = ''.../.perltidyrc'',
                                      autoDisableSetting = False\<rparr>\<rparr>"

definition noWorkspaceHost :: Host where
  "noWorkspaceHost = plainHost\<lparr>getWorkspaceFolder := (\<lambda>u. None)\<rparr>"

definition freshFormatter :: Formatter where
  "freshFormatter = \<lparr>workerCacheMap = Map.empty, processes = [], stdinLog = []\<rparr>"

definition perltidySpawn :: SpawnCall where
  "perltidySpawn = \<lparr>spawnFile = ''perltidy'',
                     spawnArgs = [''--standard-output'', ''-no-add-terminal-newline''],
                     spawnCwd = ''/work/app''\<rparr>"

definition freshSystem :: System where
  "freshSystem = \<lparr>formatter = freshFormatter, calls = [], exited = []\<rparr>"

definition doRange :: Range where
  "doRange = Range (Position 0 2) (Position 0 4)"

text \<open>
  The output \<open>C3 A9\<close> (one character, \<open>U+00E9\<close>, in UTF-8) arrives cut in two chunks, and
  the process ends with status 0.
\<close>

definition splitCharacter :: "action list" where
  "splitCharacter =
     [Begin plainHost indentDoc doRange,
      Resume plainHost 0,
      Emit plainHost 0 (StdoutData [0xC3]),
      Emit plainHost 0 (StdoutData [0xA9]),
      Emit plainHost 0 (ProcClose (Some 0))]"

text \<open>
  The executable \<open>perltidy\<close> is not installed, so every process fails to start and
  signals \<open>error\<close> with \<open>ENOENT\<close>. In \<open>missingEarly\<close> the first process signals it before
  the first call has passed its \<open>await\<close>; in \<open>missingLate\<close> after, followed by its
  \<open>close\<close>, and then the two processes started by the handlers fail likewise. A second
  call of \<open>format\<close> follows in both.
\<close>

definition missingEarly :: "action list" where
  "missingEarly =
     [Begin plainHost indentDoc doRange,
      Emit plainHost 0 (ProcError (ErrnoException ''ENOENT'')),
      Resume plainHost 0,
      Begin plainHost indentDoc doRange,
      Resume plainHost 1]"

definition missingLate :: "action list" where
  "missingLate =
     [Begin plainHost indentDoc doRange,
      Resume plainHost 0,
      Emit plainHost 0 (ProcError (ErrnoException ''ENOENT'')),
      Emit plainHost 0 (ProcClose (Some (- 2))),
      Emit plainHost 1 (ProcError (ErrnoException ''ENOENT'')),
      Emit plainHost 2 (ProcError (ErrnoException ''ENOENT'')),
      Begin plainHost indentDoc doRange,
      Resume plainHost 1]"

text \<open>
  The state and the call after \<open>format\<close> has started on the text \<open>do\<close> in \<open>indentDoc\<close>,
  from \<open>freshFormatter\<close> under \<open>plainHost\<close>.
\<close>

definition runningFormatter :: Formatter where
  "runningFormatter =
     \<lparr>workerCacheMap = [appFolder \<mapsto> \<lparr>worker = 0, executable = ''perltidy''\<rparr>],
      processes = [\<lparr>spawnFile = ''perltidy'',
                    spawnArgs = [''--standard-output'', ''-no-add-terminal-newline''],
                    spawnCwd = ''/work/app''\<rparr>],
      stdinLog = [(0, Write ''do''), (0, End)]\<rparr>"

definition runningCall :: Call where
  "runningCall = \<lparr>currentWorkspace = Some appFolder,
                   callWorker = \<lparr>worker = 0, executable = ''perltidy''\<rparr>,
                   result_text = [], error_text = [], promise = None\<rparr>"

section \<open>Range resolution: proofs\<close>

lemma lastIndexOf_from_nonneg:
  "0 \<le> i \<Longrightarrow> (0 \<le> lastIndexOf_from c xs i found) = (0 \<le> found \<or> c \<in> set xs)"
  by (induction xs arbitrary: i found) auto

lemma lastIndexOf_nonneg: "(0 \<le> lastIndexOf s c) = (c \<in> set s)"
  by (simp add: lastIndexOf_def lastIndexOf_from_nonneg)

lemma newRange_ordered: "\<not> isBefore b a \<Longrightarrow> newRange a b = Range a b"
  by (cases a; cases b) (auto simp: newRange_def isBefore_def)

lemma scanBack_none:
  "m \<le> lineCount doc \<Longrightarrow> \<forall>j<m. CHR '';'' \<notin> set (lines doc ! j)
   \<Longrightarrow> scanBack doc (int m - 1) = Inr (Position 0 0)"
proof (induction m)
  case 0
  then show ?case by simp
next
  case (Suc m)
  have "lineAt doc (int m) = Inr (TextLine m (lines doc ! m))"
    using Suc.prems(1) by (simp add: lineAt_def)
  moreover have "CHR '';'' \<notin> set (lines doc ! m)" using Suc.prems(2) by simp
  moreover have "scanBack doc (int m - 1) = Inr (Position 0 0)"
    using Suc by simp
  ultimately show ?case
    by (subst scanBack.simps) (simp add: lastIndexOf_nonneg)
qed

lemma scanBack_found:
  "m \<le> lineCount doc \<Longrightarrow> k < m \<Longrightarrow> CHR '';'' \<in> set (lines doc ! k)
   \<Longrightarrow> \<forall>j. k < j \<and> j < m \<longrightarrow> CHR '';'' \<notin> set (lines doc ! j)
   \<Longrightarrow> scanBack doc (int m - 1) = Inr (Position (k + 1) 0)"
proof (induction m)
  case 0
  then show ?case by simp
next
  case (Suc m)
  have at: "lineAt doc (int m) = Inr (TextLine m (lines doc ! m))"
    using Suc.prems(1) by (simp add: lineAt_def)
  show ?case
  proof (cases "k = m")
    case True
    then show ?thesis using at Suc.prems(3)
      by (subst scanBack.simps) (simp add: lastIndexOf_nonneg)
  next
    case False
    then have "k < m" using Suc.prems(2) by simp
    moreover have "CHR '';'' \<notin> set (lines doc ! m)" using Suc.prems(4) \<open>k < m\<close> by simp
    moreover have "scanBack doc (int m - 1) = Inr (Position (k + 1) 0)"
      using Suc \<open>k < m\<close> by simp
    ultimately show ?thesis using at
      by (subst scanBack.simps) (simp add: lastIndexOf_nonneg)
  qed
qed

lemma last_holder_cases:
  "(\<exists>k<m. P k \<and> (\<forall>j. k < j \<and> j < m \<longrightarrow> \<not> P j)) \<or> (\<forall>j<m. \<not> P j)" for m :: nat
proof (induction m)
  case 0
  then show ?case by simp
next
  case (Suc m)
  show ?case
  proof (cases "P m")
    case True
    then have "m < Suc m \<and> P m \<and> (\<forall>j. m < j \<and> j < Suc m \<longrightarrow> \<not> P j)" by auto
    then show ?thesis by blast
  next
    case False
    from Suc show ?thesis
    proof
      assume "\<exists>k<m. P k \<and> (\<forall>j. k < j \<and> j < m \<longrightarrow> \<not> P j)"
      then obtain k where k: "k < m" "P k" "\<forall>j. k < j \<and> j < m \<longrightarrow> \<not> P j" by blast
      have "\<forall>j. k < j \<and> j < Suc m \<longrightarrow> \<not> P j"
        using k(3) False by (auto simp: less_Suc_eq)
      with k show ?thesis by (meson less_SucI)
    next
      assume "\<forall>j<m. \<not> P j"
      with False have "\<forall>j<Suc m. \<not> P j" by (auto simp: less_Suc_eq)
      then show ?thesis by blast
    qed
  qed
qed

text \<open>
  Claim C4. For a trigger position inside the document, the range given to the formatter by
  the on-type action starts at column 0 of the line after the last line before the trigger
  line that holds a semicolon (the statement terminator), or at \<open>(0, 0)\<close> when no earlier
  line holds one, and it ends at the trigger position.
\<close>

theorem onType_range_after_last_semicolon:
  assumes "line position \<le> lineCount doc"
  shows "(\<exists>k<line position. CHR '';'' \<in> set (lines doc ! k)
            \<and> (\<forall>j. k < j \<and> j < line position \<longrightarrow> CHR '';'' \<notin> set (lines doc ! j))
            \<and> onTypeFormattingRange doc position = Inr (Range (Position (k + 1) 0) position))
         \<or> ((\<forall>j<line position. CHR '';'' \<notin> set (lines doc ! j))
            \<and> onTypeFormattingRange doc position = Inr (Range (Position 0 0) position))"
proof -
  let ?P = "\<lambda>j. CHR '';'' \<in> set (lines doc ! j)"
  from last_holder_cases [of "line position" ?P] show ?thesis
  proof
    assume "\<exists>k<line position. ?P k \<and> (\<forall>j. k < j \<and> j < line position \<longrightarrow> \<not> ?P j)"
    then obtain k where k: "k < line position" "?P k"
      "\<forall>j. k < j \<and> j < line position \<longrightarrow> \<not> ?P j" by blast
    have "scanBack doc (int (line position) - 1) = Inr (Position (k + 1) 0)"
      using scanBack_found [OF assms k] .
    moreover have "\<not> isBefore position (Position (k + 1) 0)"
      using k(1) by (simp add: isBefore_def)
    ultimately have "onTypeFormattingRange doc position = Inr (Range (Position (k + 1) 0) position)"
      by (simp add: onTypeFormattingRange_def newRange_ordered)
    with k show ?thesis by blast
  next
    assume none: "\<forall>j<line position. \<not> ?P j"
    have "scanBack doc (int (line position) - 1) = Inr (Position 0 0)"
      using scanBack_none [OF assms none] .
    moreover have "\<not> isBefore position (Position 0 0)" by (simp add: isBefore_def)
    ultimately have "onTypeFormattingRange doc position = Inr (Range (Position 0 0) position)"
      by (simp add: onTypeFormattingRange_def newRange_ordered)
    with none show ?thesis by blast
  qed
qed

theorem onType_range_after_last_semicolon_witness:
  "line (Position 5 7) \<le> lineCount onTypeDoc
   \<and> onTypeFormattingRange onTypeDoc (Position 5 7) = Inr (Range (Position 4 0) (Position 5 7))"
  using onType_range_after_last_semicolon [of "Position 5 7" onTypeDoc]
  by (simp add: onTypeDoc_def lineCount_def onTypeFormattingRange_def lineAt_def lastIndexOf_def
      newRange_def isBefore_def)

text \<open>
  Claim C9. The backward scan looks for \<open>;\<close> only: when no line before the trigger line
  holds a semicolon, the range is from \<open>(0, 0)\<close> to the trigger position, whatever else
  the earlier lines hold. The witness has \<open>}\<close>, \<open>)\<close> and \<open>]\<close> on earlier lines.
\<close>

theorem onType_scan_semicolon_only:
  assumes "line position \<le> lineCount doc"
    and "\<forall>j<line position. CHR '';'' \<notin> set (lines doc ! j)"
  shows "onTypeFormattingRange doc position = Inr (Range (Position 0 0) position)"
proof -
  have "scanBack doc (int (line position) - 1) = Inr (Position 0 0)"
    using scanBack_none [OF assms] .
  moreover have "\<not> isBefore position (Position 0 0)" by (simp add: isBefore_def)
  ultimately show ?thesis
    by (simp add: onTypeFormattingRange_def newRange_ordered)
qed

theorem onType_scan_semicolon_only_witness:
  "line (Position 3 3) \<le> lineCount blockDoc
   \<and> CHR '';'' \<notin> set (lines blockDoc ! 0)
   \<and> CHR '';'' \<notin> set (lines blockDoc ! 1)
   \<and> CHR '';'' \<notin> set (lines blockDoc ! 2)
   \<and> CHR ''}'' \<in> set (lines blockDoc ! 2)
   \<and> CHR '')'' \<in> set (lines blockDoc ! 1)
   \<and> CHR '']'' \<in> set (lines blockDoc ! 1)
   \<and> onTypeFormattingRange blockDoc (Position 3 3) = Inr (Range (Position 0 0) (Position 3 3))"
proof -
  have l: "line (Position 3 3) \<le> lineCount blockDoc"
    by (simp add: blockDoc_def lineCount_def)
  have n: "\<forall>j<line (Position 3 3). CHR '';'' \<notin> set (lines blockDoc ! j)"
    by (simp add: blockDoc_def less_Suc_eq numeral_3_eq_3 all_conj_distrib)
  show ?thesis
    using onType_scan_semicolon_only [OF l n] l by (simp add: blockDoc_def)
qed

lemma getText_line_prefix:
  assumes "l < lineCount doc"
  shows "getText doc (newRange (Position l 0) (Position l c)) = take c (lines doc ! l)"
proof -
  have r: "newRange (Position l 0) (Position l c) = Range (Position l 0) (Position l c)"
    by (rule newRange_ordered) (simp add: isBefore_def)
  have ne: "lines doc \<noteq> []" using assms by (auto simp: lineCount_def)
  have s: "validatePosition doc (Position l 0) = Position l 0"
    using assms ne by (simp add: validatePosition_def lineCount_def)
  have e: "validatePosition doc (Position l c) = Position l (min c (length (lines doc ! l)))"
    using assms ne by (simp add: validatePosition_def lineCount_def)
  show ?thesis
    by (simp add: r getText_def s e Let_def min_def)
qed

text \<open>
  Claim C5. For a candidate range (start not after end) that starts on a line of the document,
  the range-formatting action moves the start to column 0 of its line exactly when every
  character between the line's start and the candidate's start is whitespace; otherwise the
  start stays, and the end stays in both cases.
\<close>

theorem range_start_expansion:
  assumes "\<not> isBefore (end' rng) (start rng)"
    and "line (start rng) < lineCount doc"
  shows "rangeFormattingRange doc rng =
           Inr (Range (if \<forall>c \<in> set (take (character (start rng)) (lines doc ! line (start rng))).
                            isWhitespace c
                       then Position (line (start rng)) 0 else start rng)
                      (end' rng))"
proof -
  obtain l c where st: "start rng = Position l c" by (cases "start rng")
  have whole: "rng = Range (Position l c) (end' rng)"
    using st by (cases rng) simp
  have pre: "getText doc (newRange (Position l 0) (Position l c)) = take c (lines doc ! l)"
    using assms(2) st by (simp add: getText_line_prefix)
  have "\<not> isBefore (end' rng) (Position l 0)"
    using assms(1) st by (auto simp: isBefore_def)
  then have nr: "newRange (Position l 0) (end' rng) = Range (Position l 0) (end' rng)"
    by (rule newRange_ordered)
  have "rangeFormattingRange doc rng =
          Inr (if list_all isWhitespace (take c (lines doc ! l))
               then Range (Position l 0) (end' rng) else rng)"
    by (simp add: rangeFormattingRange_def get_range_def st pre nr matchesWhitespaceOnly_def
        Let_def)
  also have "\<dots> = Inr (Range (if \<forall>x \<in> set (take c (lines doc ! l)). isWhitespace x
                             then Position l 0 else Position l c) (end' rng))"
    using whole by (simp add: list_all_iff)
  finally show ?thesis by (simp add: st)
qed

theorem range_start_expansion_witness:
  "rangeFormattingRange indentDoc (Range (Position 0 2) (Position 2 1))
     = Inr (Range (Position 0 0) (Position 2 1))
   \<and> rangeFormattingRange indentDoc (Range (Position 1 7) (Position 2 1))
     = Inr (Range (Position 1 7) (Position 2 1))"
proof -
  have a: "\<not> isBefore (end' (Range (Position 0 2) (Position 2 1))) (start (Range (Position 0 2) (Position 2 1)))"
    by (simp add: isBefore_def)
  have b: "line (start (Range (Position 0 2) (Position 2 1))) < lineCount indentDoc"
    by (simp add: indentDoc_def lineCount_def)
  have c: "\<not> isBefore (end' (Range (Position 1 7) (Position 2 1))) (start (Range (Position 1 7) (Position 2 1)))"
    by (simp add: isBefore_def)
  have d: "line (start (Range (Position 1 7) (Position 2 1))) < lineCount indentDoc"
    by (simp add: indentDoc_def lineCount_def)
  show ?thesis
    using range_start_expansion [OF a b] range_start_expansion [OF c d]
    by (simp add: indentDoc_def isWhitespace_def)
qed

section \<open>The formatter: proofs\<close>

lemma standBy_refuses:
  "workspace = None \<or> (\<exists>ws. workspace = Some ws \<and> \<not> isFormatEnabled host ws)
   \<Longrightarrow> standBy host st workspace
       = (st, Inl (FormatError ''Format failed. File must be belong to one workspace at least.''))"
  by (auto simp: standBy_def)

lemma isFormatEnabled_iff:
  "isFormatEnabled host ws
     = (autoDisableSetting (config host)
          \<longrightarrow> existsSync host (join host (path (folderUri ws)) ''.perltidyrc''))"
  by (simp add: isFormatEnabled_def)

text \<open>
  Claim C10. \<open>standBy\<close>, called without a workspace, or with \<open>autoDisable\<close> on and no
  \<open>.perltidyrc\<close> under the workspace root, throws and leaves the whole state as it was: no
  process is spawned and \<open>workerCacheMap\<close> gains and loses no entry.
\<close>

theorem standBy_refusal_keeps_state:
  assumes "workspace = None
           \<or> (\<exists>ws. workspace = Some ws \<and> autoDisableSetting (config host)
                  \<and> \<not> existsSync host (join host (path (folderUri ws)) ''.perltidyrc''))"
  shows "standBy host st workspace
           = (st, Inl (FormatError ''Format failed. File must be belong to one workspace at least.''))"
  using assms by (intro standBy_refuses) (auto simp: isFormatEnabled_iff)

theorem standBy_refusal_keeps_state_witness:
  "standBy noWorkspaceHost freshFormatter None
     = (freshFormatter, Inl (FormatError ''Format failed. File must be belong to one workspace at least.''))
   \<and> autoDisableSetting (config autoDisableHost)
   \<and> \<not> existsSync autoDisableHost (join autoDisableHost (path (folderUri appFolder)) ''.perltidyrc'')
   \<and> standBy autoDisableHost freshFormatter (Some appFolder)
     = (freshFormatter, Inl (FormatError ''Format failed. File must be belong to one workspace at least.''))"
proof -
  have a: "autoDisableSetting (config autoDisableHost)"
    by (simp add: autoDisableHost_def)
  have b: "\<not> existsSync autoDisableHost (join autoDisableHost (path (folderUri appFolder)) ''.perltidyrc'')"
    by (simp add: autoDisableHost_def plainHost_def)
  show ?thesis
    using standBy_refusal_keeps_state [of None noWorkspaceHost freshFormatter]
      standBy_refusal_keeps_state [of "Some appFolder" autoDisableHost freshFormatter] a b
    by simp
qed

lemma format_empty:
  "getText document rng = [] \<Longrightarrow> format host st document rng = (st, Settled (Resolved (Some [])))"
  by (simp add: format_def)

lemma format_uncached_empty:
  "getText document rng = []
   \<Longrightarrow> format_uncached host st document rng = (st, Settled (Resolved (Some [])))"
  by (simp add: format_uncached_def)

lemma format_refused:
  assumes "getText document rng \<noteq> []"
    and "getWorkspaceFolder host (uri document) = None
         \<or> (\<exists>ws. getWorkspaceFolder host (uri document) = Some ws \<and> \<not> isFormatEnabled host ws)"
  shows "format host st document rng
           = (st, Settled (Rejected
                (FormatError ''Format failed. File must be belong to one workspace at least.'')))"
  using assms(1) standBy_refuses [OF assms(2), of st]
  by (simp add: format_def)

lemma getText_indent_empty: "getText indentDoc (Range (Position 0 2) (Position 0 2)) = []"
  by (simp add: getText_def)

lemma getText_indent_do: "getText indentDoc (Range (Position 0 2) (Position 0 4)) = ''do''"
  by (simp add: getText_def validatePosition_def indentDoc_def)

lemma getText_indent_newline: "getText indentDoc (Range (Position 0 6) (Position 1 0)) = [CHR 0x0A]"
  by (simp add: getText_def validatePosition_def indentDoc_def)

lemma uri_indentDoc: "uri indentDoc = perlUri"
  by (simp add: indentDoc_def)

text \<open>
  Claim C3, as the code has it. When the text of the range is empty (of length zero),
  \<open>format\<close> resolves to the empty string and the state is untouched: no process is spawned
  and nothing is written to one. This holds in both revisions.
\<close>

theorem empty_text_resolves_without_process:
  assumes "getText document rng = []"
  shows "format host st document rng = (st, Settled (Resolved (Some [])))
         \<and> format_uncached host st document rng = (st, Settled (Resolved (Some [])))"
  using assms by (simp add: format_empty format_uncached_empty)

theorem empty_text_resolves_without_process_witness:
  "getText indentDoc (Range (Position 0 2) (Position 0 2)) = []
   \<and> format plainHost freshFormatter indentDoc (Range (Position 0 2) (Position 0 2))
       = (freshFormatter, Settled (Resolved (Some [])))
   \<and> format_uncached plainHost freshFormatter indentDoc (Range (Position 0 2) (Position 0 2))
       = (freshFormatter, Settled (Resolved (Some [])))"
  using empty_text_resolves_without_process [OF getText_indent_empty, of plainHost freshFormatter]
    getText_indent_empty
  by simp

text \<open>
  Claim C3 as stated fails: the range from the end of the first line to the start of the
  second holds one line feed and no printable content, and \<open>format\<close> spawns a process and
  writes the line feed to it.
\<close>

theorem whitespace_text_reaches_process:
  "noPrintableContent (getText indentDoc (Range (Position 0 6) (Position 1 0)))
   \<and> format plainHost freshFormatter indentDoc (Range (Position 0 6) (Position 1 0))
     = (\<lparr>workerCacheMap = [appFolder \<mapsto> \<lparr>worker = 0, executable = ''perltidy''\<rparr>],
         processes = [\<lparr>spawnFile = ''perltidy'',
                       spawnArgs = [''--standard-output'', ''-no-add-terminal-newline''],
                       spawnCwd = ''/work/app''\<rparr>],
         stdinLog = [(0, Write [CHR 0x0A]), (0, End)]\<rparr>,
        Running \<lparr>currentWorkspace = Some appFolder,
                 callWorker = \<lparr>worker = 0, executable = ''perltidy''\<rparr>,
                 result_text = [], error_text = [], promise = None\<rparr>)"
  unfolding format_def getText_indent_newline uri_indentDoc
  by (simp add: noPrintableContent_def isWhitespace_def
      standBy_def isFormatEnabled_def createWorker_def plainHost_def freshFormatter_def
      appFolder_def posixJoin_def posixIsAbsolute_def Let_def)

text \<open>
  Claim C2, as the code has it. When the text of the range is not empty and the document
  belongs to no workspace, \<open>format\<close> rejects with a \<open>FormatError\<close> (the class that the
  process failures use as well) with the message
  \<open>Format failed. File must be belong to one workspace at least.\<close>, and the state is
  untouched. This holds in both revisions.
\<close>

theorem no_workspace_rejects_with_FormatError:
  assumes "getText document rng \<noteq> []"
    and "getWorkspaceFolder host (uri document) = None"
  shows "format host st document rng
           = (st, Settled (Rejected
                (FormatError ''Format failed. File must be belong to one workspace at least.'')))
         \<and> format_uncached host st document rng
           = (st, Settled (Rejected
                (FormatError ''Format failed. File must be belong to one workspace at least.'')))"
  using assms by (simp add: format_refused format_uncached_def)

theorem no_workspace_rejects_with_FormatError_witness:
  "getText indentDoc (Range (Position 0 2) (Position 0 4)) \<noteq> []
   \<and> getWorkspaceFolder noWorkspaceHost (uri indentDoc) = None
   \<and> format noWorkspaceHost freshFormatter indentDoc (Range (Position 0 2) (Position 0 4))
       = (freshFormatter, Settled (Rejected
            (FormatError ''Format failed. File must be belong to one workspace at least.'')))"
proof -
  have a: "getText indentDoc (Range (Position 0 2) (Position 0 4)) \<noteq> []"
    by (simp add: getText_indent_do)
  have b: "getWorkspaceFolder noWorkspaceHost (uri indentDoc) = None"
    by (simp add: noWorkspaceHost_def)
  show ?thesis
    using no_workspace_rejects_with_FormatError [OF a b, of freshFormatter] a b by simp
qed

text \<open>
  Claim C2 as stated fails: for a document in no workspace and an empty range, \<open>format\<close>
  resolves to the empty string; and where it does reject, the error is a \<open>FormatError\<close>,
  as the error of a non-zero exit status is.
\<close>

theorem no_workspace_empty_text_resolves:
  "getWorkspaceFolder noWorkspaceHost (uri indentDoc) = None
   \<and> format noWorkspaceHost freshFormatter indentDoc (Range (Position 0 2) (Position 0 2))
       = (freshFormatter, Settled (Resolved (Some [])))
   \<and> format noWorkspaceHost freshFormatter indentDoc (Range (Position 0 2) (Position 0 4))
       = (freshFormatter, Settled (Rejected
            (FormatError ''Format failed. File must be belong to one workspace at least.'')))
   \<and> closeOutcome (Some 2) [] []
       = Rejected (FormatError ''Format failed. Perltidy exited with exit code 2.'')"
  by (simp add: format_empty getText_indent_empty format_refused getText_indent_do
      noWorkspaceHost_def closeOutcome_def showCode_def)

text \<open>
  Claim C1 is not what the later revision does. With \<open>autoDisable\<close> on, no \<open>.perltidyrc\<close>
  under the workspace root and the text \<open>do\<close>, the later \<open>format\<close> rejects with the error
  that \<open>standBy\<close> throws, where its documentation promises \<open>undefined\<close> for a skipped
  format; the earlier \<open>format\<close> resolves to \<open>undefined\<close> on the same input.
\<close>

theorem auto_disable_rejects_where_skip_is_documented:
  "autoDisableSetting (config autoDisableHost)
   \<and> \<not> existsSync autoDisableHost (join autoDisableHost (path (folderUri appFolder)) ''.perltidyrc'')
   \<and> getWorkspaceFolder autoDisableHost (uri indentDoc) = Some appFolder
   \<and> getText indentDoc (Range (Position 0 2) (Position 0 4)) = ''do''
   \<and> format autoDisableHost freshFormatter indentDoc (Range (Position 0 2) (Position 0 4))
       = (freshFormatter, Settled (Rejected
            (FormatError ''Format failed. File must be belong to one workspace at least.'')))
   \<and> format_uncached autoDisableHost freshFormatter indentDoc (Range (Position 0 2) (Position 0 4))
       = (freshFormatter, Settled (Resolved None))"
  by (simp add: getText_indent_do format_def format_uncached_def standBy_def isFormatEnabled_def
      autoDisableHost_def plainHost_def)

subsection \<open>Events\<close>

lemma run_append: "run toString (xs @ ys) sc = run toString ys (run toString xs sc)"
  by (induction toString xs sc rule: run.induct) simp_all

lemma run_data:
  "\<forall>x \<in> set evs. isData (snd x)
   \<Longrightarrow> run toString evs (st, c)
       = (st, c\<lparr>result_text := result_text c @ stdoutOf toString evs,
                 error_text := error_text c @ stderrOf toString evs\<rparr>)"
proof (induction evs arbitrary: c)
  case Nil
  then show ?case by simp
next
  case (Cons x evs)
  obtain h ev where x: "x = (h, ev)" by (cases x)
  from Cons.prems have d: "isData ev" and rest: "\<forall>x \<in> set evs. isData (snd x)"
    by (simp_all add: x)
  show ?case
  proof (cases ev)
    case (StdoutData chunk)
    then show ?thesis using Cons.IH [OF rest] by (simp add: x handleEvent_def)
  next
    case (StderrData chunk)
    then show ?thesis using Cons.IH [OF rest] by (simp add: x handleEvent_def)
  next
    case (ProcError e)
    then show ?thesis using d by simp
  next
    case (ProcClose code)
    then show ?thesis using d by simp
  qed
qed

lemma format_running:
  assumes "format host st document rng = (st1, Running c)"
  shows "result_text c = [] \<and> error_text c = [] \<and> promise c = None
         \<and> currentWorkspace c = getWorkspaceFolder host (uri document)
         \<and> (\<exists>st0. standBy host st (getWorkspaceFolder host (uri document))
                     = (st0, Inr (callWorker c)))"
proof -
  obtain st0 r where sb: "standBy host st (getWorkspaceFolder host (uri document)) = (st0, r)"
    by (cases "standBy host st (getWorkspaceFolder host (uri document))")
  show ?thesis
    using assms sb
    by (cases r; cases "writeThrows host (worker (projr r))")
       (auto simp: format_def Let_def split: if_splits)
qed

text \<open>
  What the handlers of a call do with the events that reach them: after chunks only, the
  \<open>close\<close> handler settles the promise from the exit status and from the strings made of
  the chunks, each chunk converted on its own.
\<close>

lemma close_after_data:
  assumes "result_text c = []" and "error_text c = []" and "promise c = None"
    and "\<forall>x \<in> set evs. isData (snd x)"
  shows "promise (snd (run toString (evs @ [(host', ProcClose code)]) (st1, c)))
           = Some (closeOutcome code (stderrOf toString evs) (stdoutOf toString evs))"
  using assms by (simp add: run_append run_data handleEvent_def settle_def)

lemma closeOutcome_eq:
  "closeOutcome code err out
     = (if code = Some 0 then Resolved (Some out)
        else Rejected (FormatError (''Format failed. Perltidy exited with exit code ''
               @ showCode code @ ''.''
               @ (if err = [] then [] else '' Error messages: '' @ err))))"
  by (simp add: closeOutcome_def)

lemma showCode_examples:
  "showCode (Some 0) = ''0''" "showCode (Some 2) = ''2''" "showCode (Some 10) = ''10''"
  "showCode (Some 255) = ''255''" "showCode (Some (- 2)) = ''-2''" "showCode None = ''null''"
  by (simp_all add: showCode_def)

lemma format_do:
  "format plainHost freshFormatter indentDoc (Range (Position 0 2) (Position 0 4))
     = (runningFormatter, Running runningCall)"
  unfolding format_def getText_indent_do uri_indentDoc
  by (simp add: standBy_def isFormatEnabled_def createWorker_def plainHost_def freshFormatter_def
      appFolder_def posixJoin_def posixIsAbsolute_def Let_def runningFormatter_def
      runningCall_def)

text \<open>The two turns of \<open>format\<close>, one right after the other, are \<open>format\<close>.\<close>

lemma format_two_turns:
  "format host st document rng
     = (case formatBegin host st document rng of
          (st1, Past s) \<Rightarrow> (st1, s)
        | (st1, Awaiting text workspace r) \<Rightarrow> formatResume host st1 text workspace r)"
  by (simp add: format_def formatBegin_def formatResume_def Let_def
      split: prod.splits sum.splits option.splits)

text \<open>An event of a process on which no call has registered handlers changes nothing.\<close>

lemma deliver_unheard:
  "\<forall>c. Past (Running c) \<in> set cs \<longrightarrow> worker (callWorker c) \<noteq> pid
   \<Longrightarrow> deliver toString host pid ev st cs = (st, cs)"
  by (induction toString host pid ev st cs rule: deliver.induct) auto

lemma unheard_event_changes_nothing:
  assumes "\<forall>c. Past (Running c) \<in> set (calls sys) \<longrightarrow> worker (callWorker c) \<noteq> pid"
  shows "formatter (step toString (Emit host pid ev) sys) = formatter sys
         \<and> calls (step toString (Emit host pid ev) sys) = calls sys"
  by (simp add: step_def deliver_unheard [OF assms])

lemma getText_doRange: "getText indentDoc doRange = ''do''"
  unfolding doRange_def by (rule getText_indent_do)

subsection \<open>Turns under the example host\<close>

lemma plainHost_fields:
  "getWorkspaceFolder plainHost u = Some appFolder" "writeThrows plainHost n = None"
  by (simp_all add: plainHost_def)

lemma createWorker_plain:
  "createWorker plainHost st appFolder
     = (st\<lparr>processes := processes st @ [perltidySpawn]\<rparr>,
        \<lparr>worker = length (processes st), executable = ''perltidy''\<rparr>)"
  by (simp add: createWorker_def plainHost_def appFolder_def posixJoin_def posixIsAbsolute_def
      perltidySpawn_def Let_def)

lemma enabled_plainHost: "isFormatEnabled plainHost appFolder"
  by (simp add: isFormatEnabled_def plainHost_def)

lemma standBy_plain:
  "standBy plainHost st (Some appFolder)
     = (case workerCacheMap st appFolder of
          Some w \<Rightarrow> (st, Inr w)
        | None \<Rightarrow>
            (st\<lparr>processes := processes st @ [perltidySpawn],
                 workerCacheMap := (workerCacheMap st)
                   (appFolder \<mapsto> \<lparr>worker = length (processes st), executable = ''perltidy''\<rparr>)\<rparr>,
             Inr \<lparr>worker = length (processes st), executable = ''perltidy''\<rparr>))"
  by (simp add: standBy_def enabled_plainHost createWorker_plain split: option.splits)

lemma evictAndRestart_plain:
  "evictAndRestart plainHost st (Some appFolder)
     = st\<lparr>workerCacheMap := (workerCacheMap st)
              (appFolder \<mapsto> \<lparr>worker = length (processes st), executable = ''perltidy''\<rparr>),
           processes := processes st @ [perltidySpawn]\<rparr>"
  by (simp add: evictAndRestart_def cacheDelete_def standBy_plain)

lemma step_Begin_do:
  "step toString (Begin plainHost indentDoc doRange) sys
     = (case standBy plainHost (formatter sys) (Some appFolder) of
          (st1, r) \<Rightarrow>
            sys\<lparr>formatter := st1, calls := calls sys @ [Awaiting ''do'' (Some appFolder) r]\<rparr>)"
  by (simp add: step_def formatBegin_def getText_doRange uri_indentDoc plainHost_fields Let_def
      split: prod.splits)

lemma formatResume_plain:
  "formatResume plainHost st text workspace (Inr w)
     = (st\<lparr>stdinLog := stdinLog st @ [(worker w, Write text), (worker w, End)]\<rparr>,
        Running \<lparr>currentWorkspace = workspace, callWorker = w,
                 result_text = [], error_text = [], promise = None\<rparr>)"
  by (simp add: formatResume_def plainHost_fields)

lemma handleEvent_plain:
  "currentWorkspace c = Some appFolder \<Longrightarrow>
   handleEvent toString plainHost (ProcClose code) (st, c)
     = (evictAndRestart plainHost st (Some appFolder),
        settle (closeOutcome code (error_text c) (result_text c)) c)"
  "currentWorkspace c = Some appFolder \<Longrightarrow>
   handleEvent toString plainHost (ProcError e) (st, c)
     = (evictAndRestart plainHost st (Some appFolder),
        settle (Rejected (errorRejection (executable (callWorker c)) e)) c)"
  "handleEvent toString host (StdoutData chunk) (st, c)
     = (st, c\<lparr>result_text := result_text c @ toString chunk\<rparr>)"
  "handleEvent toString host (StderrData chunk) (st, c)
     = (st, c\<lparr>error_text := error_text c @ toString chunk\<rparr>)"
  by (simp_all add: handleEvent_def)

lemma step_Resume:
  "step toString (Resume host k) sys
     = (if k < length (calls sys) then
          (case calls sys ! k of
             Awaiting text workspace r \<Rightarrow>
               (case formatResume host (formatter sys) text workspace r of
                  (st1, s) \<Rightarrow> sys\<lparr>formatter := st1, calls := (calls sys)[k := Past s]\<rparr>)
           | Past s \<Rightarrow> sys)
        else sys)"
  by (simp add: step_def)

lemma step_Emit:
  "step toString (Emit host pid ev) sys
     = (case deliver toString host pid ev (formatter sys) (calls sys) of
          (st1, cs) \<Rightarrow>
            sys\<lparr>formatter := st1, calls := cs,
                 exited := (if isData ev then exited sys else exited sys @ [pid])\<rparr>)"
  by (simp add: step_def)

lemmas plain_turns =
  step_Begin_do step_Resume step_Emit standBy_plain formatResume_plain handleEvent_plain
  evictAndRestart_plain settle_def freshSystem_def freshFormatter_def

text \<open>
  Claim C6 is not what the code does. The output of the process is the two bytes \<open>C3 A9\<close>,
  which arrive in two chunks, and the exit status is 0. The promise is resolved with the
  string made of the first byte followed by the string made of the second, where the claim
  has the content of the output stream unchanged, that is the string made of \<open>C3 A9\<close>.
\<close>

theorem chunks_are_decoded_one_by_one:
  "map promiseOf (calls (runSystem toString splitCharacter freshSystem))
     = [Some (Resolved (Some (toString [0xC3] @ toString [0xA9])))]
   \<and> map workerOf (calls (runSystem toString splitCharacter freshSystem)) = [Some 0]
   \<and> exited (runSystem toString splitCharacter freshSystem) = [0]"
  by (simp add: splitCharacter_def plain_turns closeOutcome_def)

subsection \<open>Spawning and the cache\<close>

lemma createWorker_processes:
  "processes (fst (createWorker host st ws))
     = processes st @ [last (processes (fst (createWorker host st ws)))]"
  by (simp add: createWorker_def Let_def)

lemma createWorker_worker:
  "worker (snd (createWorker host st ws)) = length (processes st)"
  by (simp add: createWorker_def Let_def)

lemma createWorker_cache:
  "workerCacheMap (fst (createWorker host st ws)) = workerCacheMap st"
  by (simp add: createWorker_def Let_def)

text \<open>
  Claim C8. \<open>createWorker\<close>, the only place that spawns, adds exactly one process, and its
  argument list is \<open>--standard-output\<close>, \<open>-no-add-terminal-newline\<close>, followed by
  \<open>--profile=\<close> and the profile exactly when the configured profile is not empty.
\<close>

theorem createWorker_arguments:
  "processes (fst (createWorker host st ws))
     = processes st @ [last (processes (fst (createWorker host st ws)))]
   \<and> spawnArgs (last (processes (fst (createWorker host st ws))))
     = (if profileSetting (config host) = []
        then [''--standard-output'', ''-no-add-terminal-newline'']
        else [''--standard-output'', ''-no-add-terminal-newline'',
              ''--profile='' @ profileSetting (config host)])"
  by (simp add: createWorker_def Let_def)

theorem createWorker_arguments_witness:
  "spawnArgs (last (processes (fst (createWorker plainHost freshFormatter appFolder))))
     = [''--standard-output'', ''-no-add-terminal-newline'']
   \<and> spawnArgs (last (processes (fst (createWorker profileHost freshFormatter appFolder))))
     = [''--standard-output'', ''-no-add-terminal-newline'', ''--profile=.../.perltidyrc'']"
  using createWorker_arguments [of plainHost freshFormatter appFolder]
    createWorker_arguments [of profileHost freshFormatter appFolder]
  by (simp add: plainHost_def profileHost_def)

lemma cacheDelete_fields:
  "workerCacheMap (cacheDelete st (Some ws)) ws = None"
  "processes (cacheDelete st w) = processes st"
  by (simp_all add: cacheDelete_def split: option.splits)

lemma standBy_absent:
  assumes "workerCacheMap st ws = None"
  shows "isFormatEnabled host ws \<Longrightarrow>
           workerCacheMap (fst (standBy host st (Some ws))) ws
             = Some (snd (createWorker host st ws))
           \<and> processes (fst (standBy host st (Some ws)))
             = processes (fst (createWorker host st ws))"
    and "\<not> isFormatEnabled host ws \<Longrightarrow> fst (standBy host st (Some ws)) = st"
  using assms by (simp_all add: standBy_def split: prod.splits)

lemma standBy_worker:
  assumes "standBy host st (Some ws) = (st', Inr w)"
  shows "workerCacheMap st ws = Some w \<or> worker w = length (processes st)"
  using assms createWorker_worker [of host st ws]
  by (auto simp: standBy_def split: if_splits option.splits prod.splits)

lemma handleEvent_state:
  assumes "ev = ProcClose code \<or> ev = ProcError e"
  shows "fst (handleEvent toString host ev (st, c))
           = evictAndRestart host st (currentWorkspace c)"
  using assms by (auto simp: handleEvent_def)

text \<open>
  What the \<open>close\<close> and \<open>error\<close> handlers of a call do when they run, for a process
  spawned earlier: the workspace's entry is deleted from the cache first and \<open>standBy\<close> runs
  on the cache without it. If formatting is enabled for the workspace at that moment, one new
  process is spawned and cached; if it is not, nothing is spawned and the workspace has no
  entry. Either way a call of \<open>format\<close> for that workspace right after does not get the
  process of the handlers.
\<close>

lemma handlers_evict_before_restart:
  assumes "ev = ProcClose code \<or> ev = ProcError e"
    and "currentWorkspace c = Some ws"
    and "worker (callWorker c) < length (processes st)"
    and "st' = fst (handleEvent toString host ev (st, c))"
  shows "workerCacheMap (cacheDelete st (Some ws)) ws = None
         \<and> st' = fst (standBy host (cacheDelete st (Some ws)) (Some ws))
         \<and> (isFormatEnabled host ws \<longrightarrow>
              (\<exists>w'. workerCacheMap st' ws = Some w' \<and> worker w' = length (processes st))
              \<and> length (processes st') = Suc (length (processes st)))
         \<and> (\<not> isFormatEnabled host ws \<longrightarrow>
              workerCacheMap st' ws = None \<and> processes st' = processes st)
         \<and> (\<forall>host2 document2 rng2 st2 c2.
              getWorkspaceFolder host2 (uri document2) = Some ws
              \<and> format host2 st' document2 rng2 = (st2, Running c2)
              \<longrightarrow> worker (callWorker c2) \<noteq> worker (callWorker c))"
proof -
  let ?d = "cacheDelete st (Some ws)"
  have gone: "workerCacheMap ?d ws = None" by (rule cacheDelete_fields(1))
  have st': "st' = fst (standBy host ?d (Some ws))"
    using handleEvent_state [OF assms(1)] assms(2,4) by (simp add: evictAndRestart_def)
  have on: "isFormatEnabled host ws \<Longrightarrow>
              workerCacheMap st' ws = Some (snd (createWorker host ?d ws))
              \<and> processes st' = processes (fst (createWorker host ?d ws))"
    using standBy_absent(1) [OF gone] st' by simp
  have off: "\<not> isFormatEnabled host ws \<Longrightarrow> st' = ?d"
    using standBy_absent(2) [OF gone] st' by simp
  have len: "isFormatEnabled host ws \<Longrightarrow> length (processes st') = Suc (length (processes st))"
  proof -
    assume "isFormatEnabled host ws"
    then have "processes st' = processes (fst (createWorker host ?d ws))" using on by simp
    then have "length (processes st') = Suc (length (processes ?d))"
      using createWorker_processes [of host ?d ws] by (metis length_append_singleton)
    then show ?thesis by (simp add: cacheDelete_fields(2))
  qed
  have fresh: "isFormatEnabled host ws \<Longrightarrow>
                 \<exists>w'. workerCacheMap st' ws = Some w' \<and> worker w' = length (processes st)"
    using on createWorker_worker [of host ?d ws] by (simp add: cacheDelete_fields(2))
  have bounds: "length (processes st) \<le> length (processes st')
                \<and> (\<forall>w. workerCacheMap st' ws = Some w \<longrightarrow> worker w = length (processes st))"
  proof (cases "isFormatEnabled host ws")
    case True
    then show ?thesis using fresh len by auto
  next
    case False
    then show ?thesis using off gone by (simp add: cacheDelete_fields(2))
  qed
  have next_call: "worker (callWorker c2) \<noteq> worker (callWorker c)"
    if ws2: "getWorkspaceFolder host2 (uri document2) = Some ws"
      and f: "format host2 st' document2 rng2 = (st2, Running c2)"
    for host2 document2 rng2 st2 c2
  proof -
    from format_running [OF f] ws2 obtain st0
      where "standBy host2 st' (Some ws) = (st0, Inr (callWorker c2))" by auto
    from standBy_worker [OF this]
    have "workerCacheMap st' ws = Some (callWorker c2)
          \<or> worker (callWorker c2) = length (processes st')" .
    then have "length (processes st) \<le> worker (callWorker c2)"
      using bounds by auto
    then show ?thesis using assms(3) by simp
  qed
  show ?thesis
    using gone st' fresh len off next_call
    by (auto simp: cacheDelete_fields)
qed

text \<open>
  The handlers run while \<open>autoDisable\<close> is on and there is no \<open>.perltidyrc\<close>: the entry is
  deleted, \<open>standBy\<close> throws, and no process is started.
\<close>

lemma restart_skipped_when_disabled:
  "handleEvent toString autoDisableHost (ProcClose (Some 0)) (runningFormatter, runningCall)
     = (cacheDelete runningFormatter (Some appFolder),
        runningCall\<lparr>promise := Some (Resolved (Some []))\<rparr>)"
  by (simp add: handleEvent_def evictAndRestart_def standBy_def isFormatEnabled_def
      autoDisableHost_def plainHost_def runningCall_def settle_def closeOutcome_def)

text \<open>
  Claim C7 is not what the code does. The handlers that evict and restart are registered by
  \<open>format\<close> after its \<open>await\<close>, on the process that the call got; \<open>createWorker\<close> and
  \<open>standBy\<close> register none. With \<open>perltidy\<close> not installed: in \<open>missingEarly\<close> the
  first process signals its \<open>error\<close> before the first call has registered, nothing is
  evicted, and the second call gets the same process from the cache; in \<open>missingLate\<close> the
  handlers of the first call do evict and restart, the processes they start fail unheard,
  and the second call gets process 2 from the cache after it has failed. In both, the
  promise of the second call stays pending.
\<close>

theorem dead_worker_reused_when_perltidy_is_missing:
  "exited (runSystem toString missingEarly freshSystem) = [0]
   \<and> workerCacheMap (formatter (runSystem toString missingEarly freshSystem)) appFolder
     = Some \<lparr>worker = 0, executable = ''perltidy''\<rparr>
   \<and> map workerOf (calls (runSystem toString missingEarly freshSystem)) = [Some 0, Some 0]
   \<and> map promiseOf (calls (runSystem toString missingEarly freshSystem)) = [None, None]
   \<and> processes (formatter (runSystem toString missingEarly freshSystem)) = [perltidySpawn]
   \<and> exited (runSystem toString missingLate freshSystem) = [0, 0, 1, 2]
   \<and> workerCacheMap (formatter (runSystem toString missingLate freshSystem)) appFolder
     = Some \<lparr>worker = 2, executable = ''perltidy''\<rparr>
   \<and> map workerOf (calls (runSystem toString missingLate freshSystem)) = [Some 0, Some 2]
   \<and> map promiseOf (calls (runSystem toString missingLate freshSystem))
     = [Some (Rejected (FormatError
          ''Format failed. Executable file (`perltidy`) is not found. You probably forgot to install perltidy.'')),
        None]
   \<and> processes (formatter (runSystem toString missingLate freshSystem))
     = [perltidySpawn, perltidySpawn, perltidySpawn]"
  by (simp add: missingEarly_def missingLate_def plain_turns closeOutcome_def errorRejection_def
      isErrnoException_def errnoCode_def)

subsection \<open>Every worker in use was spawned\<close>

text \<open>
  From a sound cache, \<open>format\<close> and the handlers keep the cache sound, the list of spawned
  processes only grows, and the worker of a running call stays one of the spawned processes
  through every event of a run.
\<close>

lemma cacheDelete_sound: "cacheSound st \<Longrightarrow> cacheSound (cacheDelete st w)"
  by (auto simp: cacheSound_def cacheDelete_def split: option.splits)

lemma createWorker_length:
  "length (processes (fst (createWorker host st ws))) = Suc (length (processes st))"
  by (simp add: createWorker_def Let_def)

lemma standBy_created:
  assumes "isFormatEnabled host ws" and "workerCacheMap st ws = None"
  shows "standBy host st (Some ws)
           = ((fst (createWorker host st ws))
                \<lparr>workerCacheMap := (workerCacheMap st)(ws \<mapsto> snd (createWorker host st ws))\<rparr>,
              Inr (snd (createWorker host st ws)))"
proof -
  obtain x1 x2 where cw: "createWorker host st ws = (x1, x2)"
    by (cases "createWorker host st ws")
  have "workerCacheMap x1 = workerCacheMap st"
    using createWorker_cache [of host st ws] by (simp add: cw)
  then show ?thesis using assms by (simp add: standBy_def cw)
qed

lemma standBy_sound:
  assumes "cacheSound st" and "standBy host st w = (st1, r)"
  shows "cacheSound st1 \<and> length (processes st) \<le> length (processes st1)
         \<and> (\<forall>wk. r = Inr wk \<longrightarrow> worker wk < length (processes st1))"
proof (cases w)
  case None
  then show ?thesis using assms by (auto simp: standBy_def)
next
  case (Some ws)
  show ?thesis
  proof (cases "isFormatEnabled host ws")
    case False
    then show ?thesis using assms Some by (auto simp: standBy_def)
  next
    case True
    show ?thesis
    proof (cases "workerCacheMap st ws")
      case None
      from standBy_created [OF True None] assms(2) Some
      have st1: "st1 = (fst (createWorker host st ws))
                   \<lparr>workerCacheMap := (workerCacheMap st)(ws \<mapsto> snd (createWorker host st ws))\<rparr>"
        and r: "r = Inr (snd (createWorker host st ws))" by simp_all
      have len: "length (processes st1) = Suc (length (processes st))"
        by (simp add: st1 createWorker_length)
      have "cacheSound st1"
        unfolding cacheSound_def
      proof (intro allI impI)
        fix k wk assume "workerCacheMap st1 k = Some wk"
        then have "wk = snd (createWorker host st ws) \<or> workerCacheMap st k = Some wk"
          by (auto simp: st1 split: if_splits)
        then show "worker wk < length (processes st1)"
          using assms(1) len by (auto simp: createWorker_worker cacheSound_def less_Suc_eq)
      qed
      then show ?thesis using len r by (simp add: createWorker_worker)
    next
      case (Some wk)
      then show ?thesis using assms \<open>w = Some ws\<close> True
        by (auto simp: standBy_def cacheSound_def)
    qed
  qed
qed

lemma evictAndRestart_sound:
  assumes "cacheSound st"
  shows "cacheSound (evictAndRestart host st w)
         \<and> length (processes st) \<le> length (processes (evictAndRestart host st w))"
proof -
  obtain st1 r where sb: "standBy host (cacheDelete st w) w = (st1, r)"
    by (cases "standBy host (cacheDelete st w) w")
  from standBy_sound [OF cacheDelete_sound [OF assms] sb]
  show ?thesis by (simp add: evictAndRestart_def sb cacheDelete_fields(2))
qed

lemma format_sound:
  assumes "cacheSound st" and "format host st document rng = (st1, r)"
  shows "cacheSound st1 \<and> length (processes st) \<le> length (processes st1)
         \<and> (\<forall>c. r = Running c \<longrightarrow> worker (callWorker c) < length (processes st1))"
proof (cases "getText document rng = []")
  case True
  then show ?thesis using assms by (auto simp: format_def)
next
  case False
  let ?w = "getWorkspaceFolder host (uri document)"
  obtain st0 r0 where sb: "standBy host st ?w = (st0, r0)"
    by (cases "standBy host st ?w")
  note s0 = standBy_sound [OF assms(1) sb]
  show ?thesis
  proof (cases r0)
    case (Inl e)
    then show ?thesis using assms(2) False sb s0 by (auto simp: format_def)
  next
    case (Inr wk)
    show ?thesis
    proof (cases "writeThrows host (worker wk)")
      case None
      then show ?thesis using assms(2) False sb s0 Inr
        by (auto simp: format_def cacheSound_def)
    next
      case (Some e)
      from s0 have "cacheSound st0" by simp
      from evictAndRestart_sound [OF this, of host ?w] s0
      show ?thesis using assms(2) False sb Inr Some by (auto simp: format_def)
    qed
  qed
qed

lemma handleEvent_sound:
  assumes "cacheSound st"
  shows "cacheSound (fst (handleEvent toString host ev (st, c)))
         \<and> length (processes st) \<le> length (processes (fst (handleEvent toString host ev (st, c))))"
  using assms evictAndRestart_sound [OF assms, of host "currentWorkspace c"]
  by (cases ev) (simp_all add: handleEvent_def)

lemma handleEvent_call:
  "callWorker (snd (handleEvent toString host ev (st, c))) = callWorker c
   \<and> currentWorkspace (snd (handleEvent toString host ev (st, c))) = currentWorkspace c"
  by (cases ev) (simp_all add: handleEvent_def settle_def split: option.splits)

lemma run_sound:
  assumes "cacheSound st" and "worker (callWorker c) < length (processes st)"
  shows "cacheSound (fst (run toString evs (st, c)))
         \<and> worker (callWorker (snd (run toString evs (st, c)))) < length (processes (fst (run toString evs (st, c))))
         \<and> callWorker (snd (run toString evs (st, c))) = callWorker c
         \<and> currentWorkspace (snd (run toString evs (st, c))) = currentWorkspace c"
  using assms
proof (induction evs arbitrary: st c)
  case Nil
  then show ?case by simp
next
  case (Cons x evs)
  obtain h ev where x: "x = (h, ev)" by (cases x)
  obtain st1 c1 where step: "handleEvent toString h ev (st, c) = (st1, c1)"
    by (cases "handleEvent toString h ev (st, c)")
  from handleEvent_sound [OF Cons.prems(1), of toString h ev c] step
  have s1: "cacheSound st1" "length (processes st) \<le> length (processes st1)" by simp_all
  from handleEvent_call [of toString h ev st c] step
  have c1: "callWorker c1 = callWorker c" "currentWorkspace c1 = currentWorkspace c" by simp_all
  have "worker (callWorker c1) < length (processes st1)"
    using Cons.prems(2) s1(2) c1(1) by simp
  from Cons.IH [OF s1(1) this] show ?case by (auto simp: x step c1)
qed

lemma freshFormatter_sound: "cacheSound freshFormatter"
  by (simp add: cacheSound_def freshFormatter_def)

end
